theory Spec2Isabelle
  imports Complex_Main
begin

text \<open>
  A model of the chat backend: the retrieval and generation logic of \<open>engine.py\<close>, the
  tables of \<open>database.py\<close> and the chat, delete and reset endpoints of \<open>main.py\<close>. The
  LLM, the web search, the PDF reader and the vector store are outside the repository;
  their answers are parameters of the model, and an exception is a value (\<open>Inl\<close>) that
  each \<open>try\<close> of the source turns into the result its \<open>except\<close> branch gives. State
  (the collection of the vector store, the database) is passed in and returned.
\<close>

section \<open>Python strings\<close>

text \<open>
  A Python \<open>str\<close> is modelled as a HOL \<open>string\<close>, each \<open>char\<close> standing for the code point
  of the same number (0 to 255); text with code points above 255 is outside the model.
  \<open>len\<close> is \<open>length\<close>, \<open>+\<close> is \<open>@\<close>, and a slice \<open>s[i:j]\<close> with \<open>0 \<le> i \<le> j\<close> is
  \<open>take (j - i) (drop i s)\<close>: a slice never raises, it is cut at the end of the string.
\<close>

definition NL :: string where
  "NL = [CHR 0x0A]"

definition py_slice :: "'a list \<Rightarrow> nat \<Rightarrow> nat \<Rightarrow> 'a list" where
  "py_slice s i j = take (j - i) (drop i s)"

text \<open>
  \<open>str.isspace\<close> on the code points below 256: TAB to CR, the separators FS to US, the
  space, NEL (0x85) and the no-break space (0xA0). \<open>str.strip()\<close> removes such characters
  at both ends.
\<close>

definition py_isspace :: "char \<Rightarrow> bool" where
  "py_isspace c =
     (let n = (of_char c :: nat)
      in (9 \<le> n \<and> n \<le> 13) \<or> (28 \<le> n \<and> n \<le> 32) \<or> n = 133 \<or> n = 160)"

definition py_strip :: "string \<Rightarrow> string" where
  "py_strip s = rev (dropWhile py_isspace (rev (dropWhile py_isspace s)))"

text \<open>
  \<open>str.lower()\<close>: the letters A to Z and the capital letters of the Latin-1 block (0xC0 to
  0xDE without the multiplication sign 0xD7) move up by 32, every other character stays.
\<close>

definition py_lower_char :: "char \<Rightarrow> char" where
  "py_lower_char c =
     (let n = (of_char c :: nat)
      in if (65 \<le> n \<and> n \<le> 90) \<or> (192 \<le> n \<and> n \<le> 222 \<and> n \<noteq> 215)
         then char_of (n + 32) else c)"

definition py_lower :: "string \<Rightarrow> string" where
  "py_lower s = map py_lower_char s"

text \<open>
  \<open>str.upper()\<close>: a to z and the small letters 0xE0 to 0xFE (without the division sign
  0xF7) move down by 32, and the sharp s (0xDF) becomes the two letters SS. The upper-case
  forms of the micro sign (0xB5) and of y with diaeresis (0xFF) lie beyond code point 255;
  the model keeps these two characters, which changes no comparison with an ASCII literal.
\<close>

definition py_upper_char :: "char \<Rightarrow> string" where
  "py_upper_char c =
     (let n = (of_char c :: nat)
      in if (97 \<le> n \<and> n \<le> 122) \<or> (224 \<le> n \<and> n \<le> 254 \<and> n \<noteq> 247)
         then [char_of (n - 32)]
         else if n = 223 then ''SS'' else [c])"

definition py_upper :: "string \<Rightarrow> string" where
  "py_upper s = concat (map py_upper_char s)"

text \<open>\<open>sep.join(xs)\<close>.\<close>

fun py_join :: "string \<Rightarrow> string list \<Rightarrow> string" where
  "py_join sep [] = []"
| "py_join sep [x] = x"
| "py_join sep (x # y # ys) = x @ sep @ py_join sep (y # ys)"

text \<open>\<open>str(n)\<close> for a Python integer: the decimal digits, with a minus sign when negative.\<close>

definition digit_char :: "nat \<Rightarrow> char" where
  "digit_char d = char_of (48 + d)"

function str_nat :: "nat \<Rightarrow> string" where
  "str_nat n = (if n < 10 then [digit_char n] else str_nat (n div 10) @ [digit_char (n mod 10)])"
  by pat_completeness auto
termination
  by (relation "measure id") auto

definition str_int :: "int \<Rightarrow> string" where
  "str_int i = (if i < 0 then CHR ''-'' # str_nat (nat (- i)) else str_nat (nat i))"

text \<open>
  \<open>range(start, stop, step)\<close> for a positive step. Python raises \<open>ValueError\<close> for step 0;
  the only call in the source has the constant step 800, and the model returns the empty
  list there.
\<close>

function py_range :: "nat \<Rightarrow> nat \<Rightarrow> nat \<Rightarrow> nat list" where
  "py_range start stop step =
     (if step = 0 \<or> stop \<le> start then [] else start # py_range (start + step) stop step)"
  by pat_completeness auto
termination
  by (relation "measure (\<lambda>(start, stop, step). stop - start)") auto

declare str_nat.simps [simp del] py_range.simps [simp del]

section \<open>Exceptions and the external services\<close>

text \<open>
  A raised exception is a value. \<open>str_exn\<close> is Python's \<open>str(e)\<close>, the message of the
  exception.
\<close>

datatype exn = Exception string | IndexError string | IntegrityError string

fun str_exn :: "exn \<Rightarrow> string" where
  "str_exn (Exception m) = m"
| "str_exn (IndexError m) = m"
| "str_exn (IntegrityError m) = m"

text \<open>A role-tagged message \<open>{"role": ..., "content": ...}\<close>.\<close>

record msg =
  role :: string
  content :: string

text \<open>One result of the web search, with the two keys the code reads.\<close>

record web_result =
  wr_title :: string
  wr_content :: string

text \<open>
  The collaborators of \<open>engine.py\<close>: what each of them answers is a parameter of the model.
  \<^item> \<open>chat_complete model messages temperature\<close> is the completion request of the LLM
    client: an exception, or the message contents of \<open>response.choices\<close>;
  \<^item> \<open>tavily\<close> is the web-search client, \<open>None\<close> when no key is configured; it takes the
    query and \<open>max_results\<close>;
  \<^item> \<open>pdf_reader\<close> is \<open>PdfReader\<close> with \<open>extract_text\<close> on every page: an exception, or the
    texts of the pages;
  \<^item> \<open>index_error\<close> is the exception every request to the document index raises, if it
    raises one;
  \<^item> \<open>distance\<close> is the embedding distance of a query text and a stored document;
  \<^item> \<open>today\<close> is \<open>datetime.date.today()\<close> as the f-string prints it.
\<close>

record services =
  chat_complete :: "string \<Rightarrow> msg list \<Rightarrow> rat \<Rightarrow> exn + string list"
  tavily :: "(string \<Rightarrow> nat \<Rightarrow> exn + web_result list) option"
  pdf_reader :: "string \<Rightarrow> exn + string list"
  index_error :: "exn option"
  distance :: "string \<Rightarrow> string \<Rightarrow> rat"
  today :: string

section \<open>The document index\<close>

text \<open>
  A stored chunk: identifier, document text and the metadata dictionary (as an association
  list). The module-level \<open>collection\<close> is a \<open>chunk list option\<close>, \<open>None\<close> when the vector
  store is disabled; the functions that change it return the new value.
\<close>

record chunk =
  chunk_id :: string
  document :: string
  metadata :: "(string \<times> string) list"

text \<open>
  \<open>collection.query(query_texts=[q], n_results=n, where={"user_id": uid})\<close>: of the chunks
  whose metadata has \<open>user_id\<close> equal to \<open>uid\<close>, the \<open>n\<close> nearest to the query.
\<close>

definition collection_query ::
  "services \<Rightarrow> chunk list \<Rightarrow> string \<Rightarrow> nat \<Rightarrow> string \<Rightarrow> exn + chunk list" where
  "collection_query svc cs q n uid =
     (case index_error svc of
        Some e \<Rightarrow> Inl e
      | None \<Rightarrow>
          Inr (take n (sort_key (\<lambda>c. distance svc q (document c))
                 (filter (\<lambda>c. map_of (metadata c) ''user_id'' = Some uid) cs))))"

text \<open>\<open>collection.get()['ids']\<close>: the identifiers of all stored chunks.\<close>

definition collection_get :: "services \<Rightarrow> chunk list \<Rightarrow> exn + string list" where
  "collection_get svc cs =
     (case index_error svc of Some e \<Rightarrow> Inl e | None \<Rightarrow> Inr (map chunk_id cs))"

text \<open>\<open>collection.delete(ids=ids)\<close>.\<close>

definition collection_delete :: "services \<Rightarrow> chunk list \<Rightarrow> string list \<Rightarrow> exn + chunk list" where
  "collection_delete svc cs ids =
     (case index_error svc of
        Some e \<Rightarrow> Inl e
      | None \<Rightarrow> Inr (filter (\<lambda>c. chunk_id c \<notin> set ids) cs))"

text \<open>\<open>collection.add(documents=..., ids=..., metadatas=...)\<close>, one batch.\<close>

definition collection_add ::
  "services \<Rightarrow> chunk list \<Rightarrow> string list \<Rightarrow> string list \<Rightarrow> (string \<times> string) list list
     \<Rightarrow> exn + chunk list" where
  "collection_add svc cs documents ids metadatas =
     (case index_error svc of
        Some e \<Rightarrow> Inl e
      | None \<Rightarrow>
          Inr (cs @ map (\<lambda>(d, i, m). \<lparr>chunk_id = i, document = d, metadata = m\<rparr>)
                      (zip documents (zip ids metadatas))))"

section \<open>engine.py\<close>

subsection \<open>Intent classification\<close>

definition intent_prompt :: "string \<Rightarrow> string" where
  "intent_prompt user_query =
     NL @ ''    Classify the intent of this user query:'' @ NL
     @ ''    1. WEB: Current events, news, or facts not in a private doc.'' @ NL
     @ ''    2. PDF: Specific questions about files, documents, or uploaded content.'' @ NL
     @ ''    3. CHAT: Greetings, coding, math, or general conversation.'' @ NL
     @ ''    Query: '' @ [CHR 0x22] @ user_query @ [CHR 0x22] @ NL
     @ ''    Output ONLY one word: WEB, PDF, or CHAT'' @ NL
     @ ''    ''"

text \<open>
  The bare \<open>except\<close> covers the request, the read of \<open>choices[0]\<close> (an \<open>IndexError\<close> on an
  empty list) and the normalisation of the answer.
\<close>

definition determine_intent :: "services \<Rightarrow> string \<Rightarrow> string" where
  "determine_intent svc user_query =
     (if py_strip (py_lower user_query) \<in> set [''hi'', ''hello'', ''hey'', ''sup'', ''how are you'']
      then ''CHAT''
      else
        (case chat_complete svc ''mistral-small-latest''
                [\<lparr>role = ''user'', content = intent_prompt user_query\<rparr>] 0 of
           Inl e \<Rightarrow> ''CHAT''
         | Inr [] \<Rightarrow> ''CHAT''
         | Inr (c # cs) \<Rightarrow>
             (let intent = py_upper (py_strip c)
              in if intent \<in> set [''WEB'', ''PDF''] then intent else ''CHAT'')))"

subsection \<open>Retrieval helpers\<close>

definition search_web_sync :: "services \<Rightarrow> string \<Rightarrow> string" where
  "search_web_sync svc query =
     (case tavily svc of
        None \<Rightarrow> ''''
      | Some search \<Rightarrow>
          (case search query 3 of
             Inl e \<Rightarrow> ''''
           | Inr results \<Rightarrow>
               foldl (\<lambda>context r.
                        context @ ''Source: '' @ wr_title r @ NL
                        @ ''Content: '' @ py_slice (wr_content r) 0 400 @ NL
                        @ ''---'' @ NL)
                     '''' results))"

text \<open>
  The result is \<open>None\<close> where the Python function returns \<open>None\<close>: no collection, an
  exception, or no document found (the function then ends without a \<open>return\<close>).
\<close>

definition search_pdf_sync :: "services \<Rightarrow> chunk list option \<Rightarrow> string \<Rightarrow> string \<Rightarrow> string option" where
  "search_pdf_sync svc collection query user_id =
     (case collection of
        None \<Rightarrow> None
      | Some cs \<Rightarrow>
          (case collection_query svc cs query 5 user_id of
             Inl e \<Rightarrow> None
           | Inr results \<Rightarrow>
               (let documents = map document results
                in if length documents > 0 then Some (py_join NL documents) else None)))"

subsection \<open>Memory reset\<close>

definition reset_memory :: "services \<Rightarrow> chunk list option \<Rightarrow> chunk list option \<times> bool" where
  "reset_memory svc collection =
     (case collection of
        None \<Rightarrow> (collection, False)
      | Some cs \<Rightarrow>
          (case collection_get svc cs of
             Inl e \<Rightarrow> (collection, False)
           | Inr all_ids \<Rightarrow>
               if all_ids \<noteq> []
               then (case collection_delete svc cs all_ids of
                       Inl e \<Rightarrow> (collection, False)
                     | Inr cs' \<Rightarrow> (Some cs', True))
               else (collection, False)))"

subsection \<open>The agent\<close>

text \<open>
  \<open>run_agent\<close> in two parts. \<open>run_agent_context\<close> is the retrieval part (the intent, the
  greeting test and the two conditional searches); besides \<open>context_data\<close> and
  \<open>source_label\<close> it records, in order, which of the two search helpers were called. Only
  these helpers reach the document index and the web-search provider.
\<close>

datatype retrieval_call = SearchPdf | SearchWeb

record retrieval =
  context_data :: string
  source_label :: string
  calls :: "retrieval_call list"

definition run_agent_context ::
  "services \<Rightarrow> chunk list option \<Rightarrow> string \<Rightarrow> bool \<Rightarrow> int \<Rightarrow> retrieval" where
  "run_agent_context svc collection query use_web user_id =
     (let intent = determine_intent svc query;
          r0 = \<lparr>context_data = '''', source_label = ''General Knowledge'', calls = []\<rparr>;
          is_greeting = py_strip (py_lower query) \<in> set [''hi'', ''hello'', ''hey'']
      in if \<not> is_greeting
         then
           (let r1 =
                  (if intent = ''PDF'' \<or> (intent = ''CHAT'' \<and> collection \<noteq> None)
                   then
                     (let pdf_data = search_pdf_sync svc collection query (str_int user_id);
                          r = r0\<lparr>calls := calls r0 @ [SearchPdf]\<rparr>
                      in case pdf_data of
                           None \<Rightarrow> r
                         | Some d \<Rightarrow>
                             if d \<noteq> ''''
                             then r\<lparr>context_data := d, source_label := ''Uploaded Document''\<rparr>
                             else r)
                   else r0)
            in if context_data r1 = '''' \<and> use_web \<and> (intent = ''WEB'' \<or> intent = ''PDF'')
               then
                 (let web_data = search_web_sync svc query;
                      r = r1\<lparr>calls := calls r1 @ [SearchWeb]\<rparr>
                  in if web_data \<noteq> ''''
                     then r\<lparr>context_data := web_data, source_label := ''Web Search''\<rparr>
                     else r)
               else r1)
         else r0)"

definition default_persona :: string where
  "default_persona = ''You are Avii Pro, a helpful AI assistant.''"

text \<open>
  \<open>system_instruction if system_instruction and len(system_instruction) > 5 else ...\<close>; the
  argument is \<open>None\<close> for Python's \<open>None\<close>.
\<close>

definition base_persona :: "string option \<Rightarrow> string" where
  "base_persona system_instruction =
     (case system_instruction of
        None \<Rightarrow> default_persona
      | Some s \<Rightarrow> if s \<noteq> '''' \<and> length s > 5 then s else default_persona)"

definition final_system_prompt :: "services \<Rightarrow> string option \<Rightarrow> retrieval \<Rightarrow> string" where
  "final_system_prompt svc system_instruction r =
     NL @ ''    '' @ base_persona system_instruction @ NL
     @ ''    '' @ NL
     @ ''    CONTEXTUAL INFORMATION:'' @ NL
     @ ''    - Current Date: '' @ today svc @ NL
     @ ''    - Context Source: '' @ source_label r @ NL
     @ ''    - Retrieved Context: ''
     @ (if context_data r \<noteq> '''' then context_data r else ''None (Use internal knowledge)'') @ NL
     @ ''    '' @ NL
     @ ''    GUIDELINES:'' @ NL
     @ ''    - If context is provided, prioritize it for your answer.'' @ NL
     @ ''    - If the user asks for code, provide clean, commented code.'' @ NL
     @ ''    - If the user asks for math, use LaTeX formatting.'' @ NL
     @ ''    ''"

text \<open>The messages of the completion request: system prompt, history, the new query.\<close>

definition agent_messages ::
  "services \<Rightarrow> string option \<Rightarrow> retrieval \<Rightarrow> msg list \<Rightarrow> string \<Rightarrow> msg list" where
  "agent_messages svc system_instruction r history query =
     [\<lparr>role = ''system'', content = final_system_prompt svc system_instruction r\<rparr>]
     @ map (\<lambda>h. \<lparr>role = role h, content = content h\<rparr>) history
     @ [\<lparr>role = ''user'', content = query\<rparr>]"

text \<open>
  The result is the pair the Python function returns: the text and the source label. An
  empty \<open>choices\<close> makes \<open>choices[0]\<close> raise inside the \<open>try\<close>.
\<close>

definition run_agent ::
  "services \<Rightarrow> chunk list option \<Rightarrow> string \<Rightarrow> msg list \<Rightarrow> bool \<Rightarrow> int \<Rightarrow> string option \<Rightarrow> rat
     \<Rightarrow> string \<times> string" where
  "run_agent svc collection query history use_web user_id system_instruction temperature =
     (let r = run_agent_context svc collection query use_web user_id;
          msgs = agent_messages svc system_instruction r history query
      in case chat_complete svc ''mistral-large-latest'' msgs temperature of
           Inl e \<Rightarrow> (''I encountered an error: '' @ str_exn e, ''Error'')
         | Inr [] \<Rightarrow>
             (''I encountered an error: '' @ str_exn (IndexError ''list index out of range''),
              ''Error'')
         | Inr (c # cs) \<Rightarrow> (c, source_label r))"

subsection \<open>Document ingestion\<close>

text \<open>The windows \<open>[text[i:i+1000] for i in range(0, len(text), 800)]\<close>.\<close>

definition chunk_windows :: "string \<Rightarrow> string list" where
  "chunk_windows text = map (\<lambda>i. py_slice text i (i + 1000)) (py_range 0 (length text) 800)"

text \<open>
  \<open>uuid4 k\<close> is the identifier the \<open>k\<close>-th call of \<open>uuid.uuid4()\<close> in this upload gives, as a
  string. The first component of the result is the collection after the upload, the second
  the value returned.
\<close>

definition parse_chunk_sync ::
  "services \<Rightarrow> chunk list \<Rightarrow> string \<Rightarrow> string \<Rightarrow> int \<Rightarrow> (nat \<Rightarrow> string) \<Rightarrow> chunk list \<times> nat" where
  "parse_chunk_sync svc cs file_content filename user_id uuid4 =
     (case pdf_reader svc file_content of
        Inl e \<Rightarrow> (cs, 0)
      | Inr pages \<Rightarrow>
          (let text = concat (map (\<lambda>page. page @ NL) (filter (\<lambda>page. page \<noteq> '''') pages))
           in if py_strip text = '''' then (cs, 0)
              else
                (let chunks = chunk_windows text;
                     ids = map uuid4 [0..<length chunks];
                     metadatas = map (\<lambda>_. [(''user_id'', str_int user_id), (''filename'', filename)])
                                     [0..<length chunks]
                 in case collection_add svc cs chunks ids metadatas of
                      Inl e \<Rightarrow> (cs, 0)
                    | Inr cs' \<Rightarrow> (cs', length chunks))))"

definition ingest_pdf ::
  "services \<Rightarrow> chunk list option \<Rightarrow> string \<Rightarrow> string \<Rightarrow> int \<Rightarrow> (nat \<Rightarrow> string)
     \<Rightarrow> chunk list option \<times> nat" where
  "ingest_pdf svc collection file_content filename user_id uuid4 =
     (case collection of
        None \<Rightarrow> (None, 0)
      | Some cs \<Rightarrow>
          (let (cs', n) = parse_chunk_sync svc cs file_content filename user_id uuid4
           in (Some cs', n)))"

section \<open>database.py\<close>

text \<open>
  The three tables, a row of each as a record. The columns \<open>created_at\<close> and \<open>timestamp\<close>
  are filled in by a default and read by none of the operations below; they are left out.
\<close>

record user =
  u_id :: int
  u_email :: string
  u_hashed_password :: string
  u_is_active :: bool
  u_role :: string

record chat_session =
  cs_id :: string
  cs_user_id :: int
  cs_title :: string

record chat_message =
  cm_id :: int
  cm_session_id :: string
  cm_role :: string
  cm_content :: string

text \<open>
  The database is the three tables, in insertion order, together with the one property of
  the backend behind \<open>DATABASE_URL\<close> that the operations depend on: whether it enforces the
  foreign key \<open>messages.session_id \<rightarrow> sessions.id\<close> (PostgreSQL does; SQLite, the default,
  does not unless the pragma is switched on, and the code never switches it on). The
  foreign key is declared without \<open>ON DELETE\<close>: the database itself never cascades.
\<close>

record database =
  users :: "user list"
  sessions :: "chat_session list"
  messages :: "chat_message list"
  foreign_keys :: bool

text \<open>\<open>db.add(ChatSession(...)); db.commit()\<close>: the primary key \<open>id\<close> must be new.\<close>

definition insert_session :: "database \<Rightarrow> chat_session \<Rightarrow> exn + database" where
  "insert_session db s =
     (if cs_id s \<in> set (map cs_id (sessions db))
      then Inl (IntegrityError ''UNIQUE constraint failed: sessions.id'')
      else Inr (db\<lparr>sessions := sessions db @ [s]\<rparr>))"

text \<open>
  \<open>db.add(ChatMessage(session_id=..., role=..., content=...)); db.commit()\<close>: the integer
  primary key is generated, one above the largest in the table.
\<close>

definition next_message_id :: "database \<Rightarrow> int" where
  "next_message_id db = fold max (map cm_id (messages db)) 0 + 1"

definition insert_message :: "database \<Rightarrow> string \<Rightarrow> string \<Rightarrow> string \<Rightarrow> exn + database" where
  "insert_message db sid r c =
     (if foreign_keys db \<and> sid \<notin> set (map cs_id (sessions db))
      then Inl (IntegrityError ''FOREIGN KEY constraint failed'')
      else Inr (db\<lparr>messages := messages db
                  @ [\<lparr>cm_id = next_message_id db, cm_session_id = sid, cm_role = r, cm_content = c\<rparr>]\<rparr>))"

text \<open>
  \<open>db.delete(session); db.commit()\<close>: a delete through the ORM session. The relationship
  \<open>ChatSession.messages\<close> has \<open>cascade="all, delete-orphan"\<close>, so the unit of work deletes
  the messages of the session first and then the session row.
\<close>

definition orm_delete_session :: "database \<Rightarrow> chat_session \<Rightarrow> database" where
  "orm_delete_session db s =
     db\<lparr>messages := filter (\<lambda>m. cm_session_id m \<noteq> cs_id s) (messages db),
        sessions := filter (\<lambda>x. cs_id x \<noteq> cs_id s) (sessions db)\<rparr>"

text \<open>
  \<open>db.query(ChatSession).filter(ChatSession.user_id == uid).delete(synchronize_session=False);
  db.commit()\<close>: a bulk delete. It is one \<open>DELETE FROM sessions WHERE user_id = ?\<close>
  statement; no object is loaded, and the cascade of the relationship, which lives in the
  ORM's unit of work, does not run. A backend that enforces the foreign key rejects the
  statement when a message still refers to one of the rows; one that does not removes the
  session rows and nothing else.
\<close>

definition query_delete_sessions :: "database \<Rightarrow> int \<Rightarrow> exn + database" where
  "query_delete_sessions db uid =
     (let doomed = map cs_id (filter (\<lambda>s. cs_user_id s = uid) (sessions db))
      in if foreign_keys db \<and> (\<exists>m \<in> set (messages db). cm_session_id m \<in> set doomed)
         then Inl (IntegrityError ''FOREIGN KEY constraint failed'')
         else Inr (db\<lparr>sessions := filter (\<lambda>s. cs_user_id s \<noteq> uid) (sessions db)\<rparr>))"

section \<open>main.py\<close>

datatype http_error = HTTPException nat string

record chat_request =
  req_session_id :: string
  req_query :: string
  req_history :: "msg list"
  req_use_web :: bool
  req_system_instruction :: "string option"
  req_temperature :: rat

record chat_response =
  response :: string
  source :: string
  resp_session_id :: string

text \<open>The last six turns of the submitted history, every role but \<open>user\<close> becoming \<open>assistant\<close>.\<close>

definition history_fmt :: "chat_request \<Rightarrow> msg list" where
  "history_fmt req =
     map (\<lambda>m. \<lparr>role = (if role m = ''user'' then ''user'' else ''assistant''), content = content m\<rparr>)
         (drop (length (req_history req) - 6) (req_history req))"

text \<open>
  \<open>chat_endpoint\<close>, with the outcome of the call of \<open>run_agent\<close> as an argument: \<open>Inr\<close> the
  pair it returns, \<open>Inl\<close> an exception it raises, which the handler catches. \<open>Inl\<close> as the
  result of the endpoint is an exception that leaves it.
\<close>

definition chat_endpoint_with ::
  "(exn + string \<times> string) \<Rightarrow> database \<Rightarrow> chat_request \<Rightarrow> user \<Rightarrow> exn + database \<times> chat_response" where
  "chat_endpoint_with agent_outcome db req current_user =
     (case (case find (\<lambda>s. cs_id s = req_session_id req \<and> cs_user_id s = u_id current_user)
                      (sessions db) of
              Some s \<Rightarrow> Inr db
            | None \<Rightarrow>
                insert_session db
                  \<lparr>cs_id = req_session_id req, cs_user_id = u_id current_user,
                   cs_title = py_slice (req_query req) 0 30 @ ''...''\<rparr>) of
        Inl e \<Rightarrow> Inl e
      | Inr db1 \<Rightarrow>
          (case insert_message db1 (req_session_id req) ''user'' (req_query req) of
             Inl e \<Rightarrow> Inl e
           | Inr db2 \<Rightarrow>
               (let (response_text, source_type) =
                      (case agent_outcome of
                         Inr p \<Rightarrow> p
                       | Inl e \<Rightarrow>
                           (''I'm having trouble thinking right now. Error: '' @ str_exn e,
                            ''Error''))
                in case insert_message db2 (req_session_id req) ''model'' response_text of
                     Inl e \<Rightarrow> Inl e
                   | Inr db3 \<Rightarrow>
                       Inr (db3, \<lparr>response = response_text, source = source_type,
                                  resp_session_id = req_session_id req\<rparr>))))"

definition chat_endpoint ::
  "services \<Rightarrow> chunk list option \<Rightarrow> database \<Rightarrow> chat_request \<Rightarrow> user
     \<Rightarrow> exn + database \<times> chat_response" where
  "chat_endpoint svc collection db req current_user =
     chat_endpoint_with
       (Inr (run_agent svc collection (req_query req) (history_fmt req) (req_use_web req)
               (u_id current_user) (req_system_instruction req) (req_temperature req)))
       db req current_user"

definition delete_session :: "database \<Rightarrow> string \<Rightarrow> user \<Rightarrow> http_error + database \<times> string" where
  "delete_session db sid current_user =
     (case find (\<lambda>s. cs_id s = sid \<and> cs_user_id s = u_id current_user) (sessions db) of
        Some s \<Rightarrow> Inr (orm_delete_session db s, ''Chat deleted'')
      | None \<Rightarrow> Inl (HTTPException 404 ''Not found''))"

text \<open>
  \<open>reset_db\<close>: the database and the collection after the request, and the response or the
  HTTP error. An exception of the bulk delete is rolled back and answered with status 500,
  before \<open>reset_memory\<close> is reached; the value \<open>reset_memory\<close> returns is not looked at.
\<close>

definition reset_db ::
  "services \<Rightarrow> database \<Rightarrow> chunk list option \<Rightarrow> user
     \<Rightarrow> database \<times> chunk list option \<times> (http_error + string)" where
  "reset_db svc db collection current_user =
     (case query_delete_sessions db (u_id current_user) of
        Inl e \<Rightarrow> (db, collection, Inl (HTTPException 500 (str_exn e)))
      | Inr db' \<Rightarrow>
          (let (collection', cleared) = reset_memory svc collection
           in (db', collection', Inr ''History and PDF Memory cleared!'')))"

section \<open>Concrete inputs\<close>

text \<open>
  Services used to run the model on concrete inputs. With \<open>svc_up\<close> every collaborator
  answers: the classifier says \<open>pdf\<close> (with blanks around it), the completion gives one
  choice, the web search one result, the PDF reader one page holding the bytes as text.
  With \<open>svc_down\<close> every LLM request raises; with \<open>svc_vague\<close> the classifier answers with a
  sentence instead of one word.
\<close>

definition svc_up :: services where
  "svc_up =
     \<lparr>chat_complete =
        (\<lambda>model msgs t. if model = ''mistral-small-latest'' then Inr ['' pdf '']
                         else Inr [''Here is the answer.'']),
      tavily = Some (\<lambda>q n. Inr [\<lparr>wr_title = ''News'', wr_content = ''Rates held.''\<rparr>]),
      pdf_reader = (\<lambda>bytes. Inr [bytes]),
      index_error = None,
      distance = (\<lambda>q d. 0),
      today = ''2025-01-01''\<rparr>"

definition svc_down :: services where
  "svc_down = svc_up\<lparr>chat_complete := (\<lambda>model msgs t. Inl (Exception ''timeout''))\<rparr>"

definition svc_vague :: services where
  "svc_vague = svc_up\<lparr>chat_complete := (\<lambda>model msgs t. Inr [''I think WEB''])\<rparr>"

text \<open>
  The chunk count as the specification words it, for a text of \<open>L\<close> characters:
  \<open>ceil((L - 1000) / 800) + 1\<close> when \<open>L > 1000\<close>, else 1 for \<open>L > 0\<close>, else 0.
\<close>

definition spec_chunk_count :: "nat \<Rightarrow> nat" where
  "spec_chunk_count L =
     (if L > 1000 then (L - 1000 + 799) div 800 + 1 else if L > 0 then 1 else 0)"

text \<open>A source of identifiers for the uploads below.\<close>

definition test_uuid4 :: "nat \<Rightarrow> string" where
  "test_uuid4 k = ''id-'' @ str_nat k"

text \<open>The number a string of decimal digits stands for; it reads \<open>str_nat\<close> back.\<close>

definition digits_value :: "string \<Rightarrow> nat" where
  "digits_value s = foldl (\<lambda>a c. 10 * a + (of_char c - 48)) 0 s"

text \<open>A collection holding one chunk of user 1 and one of user 2, a database and a user.\<close>

definition two_user_collection :: "chunk list" where
  "two_user_collection =
     [\<lparr>chunk_id = ''a1'', document = ''Alice: the contract ends in May.'',
       metadata = [(''user_id'', ''1''), (''filename'', ''contract.pdf'')]\<rparr>,
      \<lparr>chunk_id = ''b1'', document = ''Bob: the password is swordfish.'',
       metadata = [(''user_id'', ''2''), (''filename'', ''notes.pdf'')]\<rparr>]"

definition empty_db :: database where
  "empty_db = \<lparr>users = [], sessions = [], messages = [], foreign_keys = False\<rparr>"

definition alice :: user where
  "alice = \<lparr>u_id = 1, u_email = ''alice@example.org'', u_hashed_password = ''x'',
            u_is_active = True, u_role = ''user''\<rparr>"

text \<open>
  A chat request, and the database after user 1 has sent it and received the answer \<open>4\<close>:
  one session with its two messages.
\<close>

definition hello_request :: chat_request where
  "hello_request =
     \<lparr>req_session_id = ''s1'', req_query = ''What is 2+2?'', req_history = [], req_use_web = True,
      req_system_instruction = Some ''You are Avii Pro.'', req_temperature = 3 / 10\<rparr>"

definition db_with_chat :: database where
  "db_with_chat =
     \<lparr>users = [alice],
      sessions = [\<lparr>cs_id = ''s1'', cs_user_id = 1, cs_title = ''What is 2+2?...''\<rparr>],
      messages = [\<lparr>cm_id = 1, cm_session_id = ''s1'', cm_role = ''user'', cm_content = ''What is 2+2?''\<rparr>,
                  \<lparr>cm_id = 2, cm_session_id = ''s1'', cm_role = ''model'', cm_content = ''4''\<rparr>],
      foreign_keys = False\<rparr>"

section \<open>Properties\<close>

subsection \<open>The persona\<close>

lemma take_indent: "take (5 + length p) (NL @ ''    '' @ p @ rest) = NL @ ''    '' @ p"
proof -
  define xs where "xs = NL @ ''    '' @ p"
  have len: "length xs = 5 + length p" by (simp add: xs_def NL_def)
  have "take (length xs) (xs @ rest) = xs" by simp
  then show ?thesis unfolding len by (simp add: xs_def)
qed

lemma final_system_prompt_starts:
  "take (5 + length (base_persona si)) (final_system_prompt svc si r)
     = NL @ ''    '' @ base_persona si"
  unfolding final_system_prompt_def by (simp only: append_assoc take_indent)

text \<open>
  C9. A persona given by the caller is the base persona exactly when it is longer than five
  characters: a missing one, or one of at most five characters, gives the fixed default.
  The base persona is what the system prompt of the completion request starts with (after
  the line break and the indentation of the template), and the system prompt is the first
  message of the request.
\<close>

theorem base_persona_longer_than_five:
  "base_persona None = default_persona
   \<and> (length s \<le> 5 \<longrightarrow> base_persona (Some s) = default_persona)
   \<and> (5 < length t \<longrightarrow> base_persona (Some t) = t)
   \<and> (base_persona (Some u) = u \<longleftrightarrow> 5 < length u)
   \<and> hd (agent_messages svc si r h q)
       = \<lparr>role = ''system'', content = final_system_prompt svc si r\<rparr>
   \<and> take (5 + length (base_persona si)) (final_system_prompt svc si r)
       = NL @ ''    '' @ base_persona si"
proof -
  have "base_persona (Some u) = u \<longleftrightarrow> 5 < length u"
    by (auto simp: base_persona_def default_persona_def)
  moreover have "hd (agent_messages svc si r h q)
      = \<lparr>role = ''system'', content = final_system_prompt svc si r\<rparr>"
    by (simp add: agent_messages_def)
  ultimately show ?thesis
    using final_system_prompt_starts[of si svc r] by (auto simp: base_persona_def)
qed

theorem base_persona_longer_than_five_witness:
  "length ''Hi'' \<le> 5
   \<and> base_persona (Some ''Hi'') = ''You are Avii Pro, a helpful AI assistant.''
   \<and> 5 < length ''Be terse.''
   \<and> base_persona (Some ''Be terse.'') = ''Be terse.''"
  using base_persona_longer_than_five[of "''Hi''" "''Be terse.''"]
  by (simp add: default_persona_def)

subsection \<open>Failure of the completion request\<close>

text \<open>
  C8. When the completion request of the agent raises an exception \<open>e\<close>, \<open>run_agent\<close> raises
  nothing: it returns the text \<open>I encountered an error: \<close> followed by the message of \<open>e\<close>,
  with the source label \<open>Error\<close>.
\<close>

theorem run_agent_completion_error:
  "chat_complete svc ''mistral-large-latest''
      (agent_messages svc si (run_agent_context svc coll q w uid) h q) t = Inl e
   \<Longrightarrow> run_agent svc coll q h w uid si t = (''I encountered an error: '' @ str_exn e, ''Error'')"
  by (simp add: run_agent_def Let_def)

theorem run_agent_completion_error_witness:
  "run_agent svc_down None ''What is 2+2?'' [] True 1 None (3 / 10)
     = (''I encountered an error: timeout'', ''Error'')"
  using run_agent_completion_error
          [of svc_down None "None" "''What is 2+2?''" True 1 "[]" "3 / 10" "Exception ''timeout''"]
  by (simp add: svc_down_def)

subsection \<open>The intent classifier\<close>

text \<open>
  C7. \<open>determine_intent\<close> returns one of \<open>WEB\<close>, \<open>PDF\<close> and \<open>CHAT\<close> for every query and every
  behaviour of the LLM. When the classification request raises, the result is \<open>CHAT\<close>; when
  it answers, and the answer (trimmed and in upper case, as the code reads it) is neither
  \<open>WEB\<close> nor \<open>PDF\<close>, the result is \<open>CHAT\<close>. The function has no exceptional result.
\<close>

theorem determine_intent_one_of_three:
  "determine_intent svc q \<in> {''WEB'', ''PDF'', ''CHAT''}
   \<and> (chat_complete svc ''mistral-small-latest''
         [\<lparr>role = ''user'', content = intent_prompt q\<rparr>] 0 = Inl e
        \<longrightarrow> determine_intent svc q = ''CHAT'')
   \<and> (chat_complete svc ''mistral-small-latest''
         [\<lparr>role = ''user'', content = intent_prompt q\<rparr>] 0 = Inr (c # cs)
        \<and> py_upper (py_strip c) \<notin> {''WEB'', ''PDF''}
        \<longrightarrow> determine_intent svc q = ''CHAT'')"
  by (auto simp: determine_intent_def Let_def split: sum.splits list.splits)

theorem determine_intent_one_of_three_witness:
  "determine_intent svc_down ''Latest news?'' = ''CHAT''
   \<and> py_upper (py_strip ''I think WEB'') \<notin> {''WEB'', ''PDF''}
   \<and> determine_intent svc_vague ''Latest news?'' = ''CHAT''"
proof -
  have up: "py_upper (py_strip ''I think WEB'') = ''I THINK WEB''"
    by code_simp
  have down: "chat_complete svc_down ''mistral-small-latest''
      [\<lparr>role = ''user'', content = intent_prompt ''Latest news?''\<rparr>] 0
        = Inl (Exception ''timeout'')"
    by (simp add: svc_down_def)
  have vague: "chat_complete svc_vague ''mistral-small-latest''
      [\<lparr>role = ''user'', content = intent_prompt ''Latest news?''\<rparr>] 0
        = Inr [''I think WEB'']"
    by (simp add: svc_vague_def)
  show ?thesis
    using determine_intent_one_of_three
            [of svc_down "''Latest news?''" "Exception ''timeout''" "''''" "[]"]
          determine_intent_one_of_three
            [of svc_vague "''Latest news?''" "Exception ''timeout''" "''I think WEB''" "[]"]
          down vague
    by (simp add: up)
qed

subsection \<open>Chunking of an uploaded document\<close>

lemma div_step: 
  assumes "0 < (s::nat)" "a < n"
  shows "Suc ((n - (a + s) + s - 1) div s) = (n - a + s - 1) div s"
proof (cases "a + s \<le> n")
  case True
  then have "n - a + s - 1 = (n - (a + s) + s - 1) + s" using assms by linarith
  then have "(n - a + s - 1) div s = (n - (a + s) + s - 1) div s + 1"
    using assms(1) by (simp only: div_add_self2) 
  then show ?thesis by simp
next
  case False
  then have e: "n - (a + s) + s - 1 = s - 1" by linarith
  have "s \<le> n - a + s - 1" "n - a + s - 1 < 2 * s" using assms False by linarith+
  then have "(n - a + s - 1) div s = 1"
    using assms(1) by (simp add: div_nat_eqI)
  then show ?thesis using e assms(1) by simp
qed

lemma py_range_length: "0 < s \<Longrightarrow> length (py_range a n s) = (n - a + s - 1) div s"
proof (induction a n s rule: py_range.induct)
  case (1 start stop step)
  show ?case
  proof (cases "stop \<le> start")
    case True
    then show ?thesis using 1(2) by (simp add: py_range.simps[of start stop step])
  next
    case False
    then have "length (py_range start stop step) = Suc ((stop - (start + step) + step - 1) div step)"
      using 1 by (simp add: py_range.simps[of start stop step])
    also have "\<dots> = (stop - start + step - 1) div step"
      using div_step[of step start stop] 1(2) False by simp
    finally show ?thesis .
  qed
qed

lemma py_range_nth: "0 < s \<Longrightarrow> k < length (py_range a n s) \<Longrightarrow> py_range a n s ! k = a + k * s"
proof (induction a n s arbitrary: k rule: py_range.induct)
  case (1 start stop step)
  show ?case
  proof (cases "stop \<le> start")
    case True
    then show ?thesis using 1(3) by (simp add: py_range.simps[of start stop step])
  next
    case False
    then have eq: "py_range start stop step = start # py_range (start + step) stop step"
      using 1(2) by (simp add: py_range.simps[of start stop step])
    show ?thesis
    proof (cases k)
      case 0
      then show ?thesis using eq by simp
    next
      case (Suc j)
      then have "j < length (py_range (start + step) stop step)" using 1(3) eq by simp
      then have "py_range (start + step) stop step ! j = start + step + j * step"
        using 1(1)[of j] 1(2) False by simp
      then show ?thesis using eq Suc by simp
    qed
  qed
qed

lemma chunk_windows_length: "length (chunk_windows text) = (length text + 799) div 800"
  by (simp add: chunk_windows_def py_range_length)

lemma chunk_windows_nth:
  assumes "k < (length text + 799) div 800"
  shows "chunk_windows text ! k = py_slice text (800 * k) (800 * k + 1000)"
proof -
  have "k < length (py_range 0 (length text) 800)" using assms by (simp add: py_range_length)
  then show ?thesis by (simp add: chunk_windows_def py_range_nth mult.commute)
qed

lemma py_strip_empty_iff: "py_strip s = [] \<longleftrightarrow> (\<forall>c \<in> set s. py_isspace c)"
proof -
  have "py_strip s = [] \<longleftrightarrow> (\<forall>c \<in> set (dropWhile py_isspace s). py_isspace c)"
    by (simp add: py_strip_def)
  also have "\<dots> \<longleftrightarrow> dropWhile py_isspace s = []"
  proof
    assume a: "\<forall>c \<in> set (dropWhile py_isspace s). py_isspace c"
    show "dropWhile py_isspace s = []"
    proof (rule ccontr)
      assume n: "dropWhile py_isspace s \<noteq> []"
      then have "\<not> py_isspace (hd (dropWhile py_isspace s))" by (rule hd_dropWhile)
      moreover have "hd (dropWhile py_isspace s) \<in> set (dropWhile py_isspace s)" using n by simp
      ultimately show False using a by blast
    qed
  next
    assume e: "dropWhile py_isspace s = []"
    show "\<forall>c \<in> set (dropWhile py_isspace s). py_isspace c" unfolding e by simp
  qed
  also have "\<dots> \<longleftrightarrow> (\<forall>c \<in> set s. py_isspace c)" by simp
  finally show ?thesis .
qed

lemma chunk_windows_2400:
  assumes "length text = 2400"
  shows "chunk_windows text = [py_slice text 0 1000, py_slice text 800 1800, py_slice text 1600 2400]"
proof -
  have r: "py_range 0 2400 800 = [0, 800, 1600]" by code_simp
  have "py_slice text 1600 2600 = py_slice text 1600 2400" using assms by (simp add: py_slice_def)
  then show ?thesis using assms by (simp add: chunk_windows_def r)
qed

lemma zip_windows:
  "map (\<lambda>(d, i, m). \<lparr>chunk_id = i, document = d, metadata = m\<rparr>)
       (zip ws (zip (map uuid4 [0..<length ws]) (map (\<lambda>_. md) [0..<length ws])))
   = map (\<lambda>k. \<lparr>chunk_id = uuid4 k, document = ws ! k, metadata = md\<rparr>) [0..<length ws]"
  by (rule nth_equalityI) auto

lemma parse_chunk_sync_result:
  assumes "pdf_reader svc fc = Inr pages" "index_error svc = None"
    and "text = concat (map (\<lambda>page. page @ NL) (filter (\<lambda>page. page \<noteq> '''') pages))"
  shows "parse_chunk_sync svc cs fc fname uid uuid4 =
     (if py_strip text = '''' then (cs, 0)
      else (cs @ map (\<lambda>k. \<lparr>chunk_id = uuid4 k, document = chunk_windows text ! k,
                            metadata = [(''user_id'', str_int uid), (''filename'', fname)]\<rparr>)
                   [0..<length (chunk_windows text)],
            length (chunk_windows text)))"
  unfolding assms(3) parse_chunk_sync_def collection_add_def Let_def assms(1) assms(2) zip_windows
  by simp

lemma ingest_pdf_result:
  assumes "pdf_reader svc fc = Inr pages" "index_error svc = None"
    and "text = concat (map (\<lambda>page. page @ NL) (filter (\<lambda>page. page \<noteq> '''') pages))"
  shows "ingest_pdf svc (Some cs) fc fname uid uuid4 =
     (if py_strip text = '''' then (Some cs, 0)
      else (Some (cs @ map (\<lambda>k. \<lparr>chunk_id = uuid4 k, document = chunk_windows text ! k,
                            metadata = [(''user_id'', str_int uid), (''filename'', fname)]\<rparr>)
                   [0..<length (chunk_windows text)]),
            length (chunk_windows text)))"
  by (simp add: ingest_pdf_def parse_chunk_sync_result[OF assms])

text \<open>
  C1. Take an upload that is read without an exception, with the document index
  available and answering, and let \<open>text\<close> be the extracted text (every non-empty
  page text followed by a line break) and \<open>L\<close> its length. If \<open>text\<close> consists of white
  space only (in particular if \<open>L = 0\<close>), nothing is stored and the count is 0. Otherwise
  the count is \<open>ceil(L / 800)\<close>, and chunk \<open>k\<close> is the slice \<open>text[800 k : 800 k + 1000]\<close>,
  tagged with the user and the file name. A text of 2400 characters gives the three chunks
  \<open>[0, 1000)\<close>, \<open>[800, 1800)\<close>, \<open>[1600, 2400)\<close>. The count is not the one
  \<open>spec_chunk_count\<close> gives: the two differ at 900 characters, and on a text of white
  space (see the counterexample).
\<close>

theorem ingest_pdf_chunk_count:
  assumes "pdf_reader svc fc = Inr pages" "index_error svc = None"
    and "text = concat (map (\<lambda>page. page @ NL) (filter (\<lambda>page. page \<noteq> '''') pages))"
  shows "(py_strip text = '''' \<longrightarrow> ingest_pdf svc (Some cs) fc fname uid uuid4 = (Some cs, 0))
   \<and> (py_strip text \<noteq> '''' \<longrightarrow>
        snd (ingest_pdf svc (Some cs) fc fname uid uuid4) = (length text + 799) div 800
      \<and> fst (ingest_pdf svc (Some cs) fc fname uid uuid4)
          = Some (cs @ map (\<lambda>k. \<lparr>chunk_id = uuid4 k,
                                   document = py_slice text (800 * k) (800 * k + 1000),
                                   metadata = [(''user_id'', str_int uid), (''filename'', fname)]\<rparr>)
                          [0..<(length text + 799) div 800]))
   \<and> (py_strip text \<noteq> '''' \<and> length text = 2400 \<longrightarrow>
        snd (ingest_pdf svc (Some cs) fc fname uid uuid4) = 3
      \<and> chunk_windows text
          = [py_slice text 0 1000, py_slice text 800 1800, py_slice text 1600 2400])"
proof -
  note r = ingest_pdf_result[OF assms, of cs fname uid uuid4]
  have m: "map (\<lambda>k. \<lparr>chunk_id = uuid4 k, document = chunk_windows text ! k,
                            metadata = [(''user_id'', str_int uid), (''filename'', fname)]\<rparr>)
                   [0..<length (chunk_windows text)]
      = map (\<lambda>k. \<lparr>chunk_id = uuid4 k,
                                   document = py_slice text (800 * k) (800 * k + 1000),
                                   metadata = [(''user_id'', str_int uid), (''filename'', fname)]\<rparr>)
                          [0..<(length text + 799) div 800]"
    by (rule map_cong) (simp_all add: chunk_windows_length chunk_windows_nth)
  have a: "py_strip text = '''' \<longrightarrow> ingest_pdf svc (Some cs) fc fname uid uuid4 = (Some cs, 0)"
    using r by simp
  have b: "py_strip text \<noteq> '''' \<longrightarrow>
        snd (ingest_pdf svc (Some cs) fc fname uid uuid4) = (length text + 799) div 800
      \<and> fst (ingest_pdf svc (Some cs) fc fname uid uuid4)
          = Some (cs @ map (\<lambda>k. \<lparr>chunk_id = uuid4 k,
                                   document = py_slice text (800 * k) (800 * k + 1000),
                                   metadata = [(''user_id'', str_int uid), (''filename'', fname)]\<rparr>)
                          [0..<(length text + 799) div 800])"
    using r m by (simp add: chunk_windows_length)
  have c: "py_strip text \<noteq> '''' \<and> length text = 2400 \<longrightarrow>
        snd (ingest_pdf svc (Some cs) fc fname uid uuid4) = 3
      \<and> chunk_windows text
          = [py_slice text 0 1000, py_slice text 800 1800, py_slice text 1600 2400]"
    using r by (simp add: chunk_windows_length chunk_windows_2400)
  show ?thesis using a b c by blast
qed

lemma page_a_strip: "py_strip (replicate (Suc n) CHR ''a'' @ NL) \<noteq> ''''"
proof -
  have "\<not> py_isspace CHR ''a''" by (simp add: py_isspace_def)
  then show ?thesis by (auto simp: py_strip_empty_iff)
qed

theorem ingest_pdf_chunk_count_witness:
  "length (replicate 2399 CHR ''a'' @ NL) = 2400
   \<and> snd (ingest_pdf svc_up (Some []) (replicate 2399 CHR ''a'') ''doc.pdf'' 7 test_uuid4) = 3
   \<and> py_strip (''  '' @ NL) = ''''
   \<and> ingest_pdf svc_up (Some []) ''  '' ''doc.pdf'' 7 test_uuid4 = (Some [], 0)"
proof -
  have p: "pdf_reader svc_up fc = Inr [fc]" for fc by (simp add: svc_up_def)
  have i: "index_error svc_up = None" by (simp add: svc_up_def)
  have t1: "replicate 2399 CHR ''a'' @ NL
      = concat (map (\<lambda>page. page @ NL) (filter (\<lambda>page. page \<noteq> '''') [replicate 2399 CHR ''a'']))"
    by simp
  have t2: "''  '' @ NL = concat (map (\<lambda>page. page @ NL) (filter (\<lambda>page. page \<noteq> '''') [''  '']))"
    by simp
  have s1: "py_strip (replicate 2399 CHR ''a'' @ NL) \<noteq> ''''"
    using page_a_strip[of 2398] by simp
  have s2: "py_strip (''  '' @ NL) = ''''"
    by (simp add: py_strip_empty_iff py_isspace_def NL_def)
  have l: "length (replicate 2399 CHR ''a'' @ NL) = 2400" by (simp add: NL_def)
  show ?thesis
    using ingest_pdf_chunk_count[OF p i t1, of "[]" "''doc.pdf''" 7 test_uuid4]
          ingest_pdf_chunk_count[OF p i t2, of "[]" "''doc.pdf''" 7 test_uuid4]
          s1 s2 l
    by simp
qed

theorem spec_chunk_count_counterexample:
  "length (replicate 899 CHR ''a'' @ NL) = 900
   \<and> snd (ingest_pdf svc_up (Some []) (replicate 899 CHR ''a'') ''doc.pdf'' 7 test_uuid4) = 2
   \<and> spec_chunk_count 900 = 1
   \<and> length (''  '' @ NL) = 3
   \<and> snd (ingest_pdf svc_up (Some []) ''  '' ''doc.pdf'' 7 test_uuid4) = 0
   \<and> spec_chunk_count 3 = 1"
proof -
  have p: "pdf_reader svc_up fc = Inr [fc]" for fc by (simp add: svc_up_def)
  have i: "index_error svc_up = None" by (simp add: svc_up_def)
  have t1: "replicate 899 CHR ''a'' @ NL
      = concat (map (\<lambda>page. page @ NL) (filter (\<lambda>page. page \<noteq> '''') [replicate 899 CHR ''a'']))"
    by simp
  have t2: "''  '' @ NL = concat (map (\<lambda>page. page @ NL) (filter (\<lambda>page. page \<noteq> '''') [''  '']))"
    by simp
  have s1: "py_strip (replicate 899 CHR ''a'' @ NL) \<noteq> ''''"
    using page_a_strip[of 898] by simp
  have s2: "py_strip (''  '' @ NL) = ''''"
    by (simp add: py_strip_empty_iff py_isspace_def NL_def)
  have l: "length (replicate 899 CHR ''a'' @ NL) = 900" "length (''  '' @ NL) = 3" by (simp_all add: NL_def)
  show ?thesis
    using ingest_pdf_result[OF p i t1, of "[]" "''doc.pdf''" 7 test_uuid4]
          ingest_pdf_result[OF p i t2, of "[]" "''doc.pdf''" 7 test_uuid4]
          s1 s2 l
    by (simp add: chunk_windows_length spec_chunk_count_def)
qed

subsection \<open>Memory reset and the document index\<close>

lemma delete_all_ids: "filter (\<lambda>c. chunk_id c \<notin> set (map chunk_id cs)) cs = []"
  by (induction cs) auto

lemma reset_memory_cases:
  "reset_memory svc coll =
     (case coll of
        None \<Rightarrow> (None, False)
      | Some cs \<Rightarrow>
          if index_error svc = None \<and> cs \<noteq> [] then (Some [], True) else (Some cs, False))"
  by (auto simp: reset_memory_def collection_get_def collection_delete_def delete_all_ids
           split: option.splits)

lemma search_pdf_sync_empty: "search_pdf_sync svc (Some []) q uid = None"
  by (simp add: search_pdf_sync_def collection_query_def split: option.splits)

text \<open>
  C4. \<open>reset_memory\<close> deletes the chunks of every user, not of one: whenever it returns
  \<open>True\<close> the collection is empty afterwards, so that a search on behalf of any user finds
  nothing. When the index answers, the collection is empty after the call whatever it
  held before (the result is \<open>True\<close> exactly when there was something to delete), and this
  is the state \<open>reset_db\<close> leaves when it succeeds, whoever the calling user is.
\<close>

theorem reset_memory_clears_every_user:
  "(reset_memory svc coll = (coll', True) \<longrightarrow>
       coll' = Some [] \<and> search_pdf_sync svc coll' q uid = None)
   \<and> (index_error svc = None \<and> coll = Some cs \<longrightarrow>
       fst (reset_memory svc coll) = Some [] \<and> (snd (reset_memory svc coll) \<longleftrightarrow> cs \<noteq> []))
   \<and> (index_error svc = None \<and> coll = Some cs
       \<and> reset_db svc db coll current_user = (db', coll'', Inr ok) \<longrightarrow> coll'' = Some [])"
proof -
  have a: "reset_memory svc coll = (coll', True) \<longrightarrow>
       coll' = Some [] \<and> search_pdf_sync svc coll' q uid = None"
    by (auto simp: reset_memory_cases search_pdf_sync_empty split: option.splits if_splits)
  have b: "index_error svc = None \<and> coll = Some cs \<longrightarrow>
       fst (reset_memory svc coll) = Some [] \<and> (snd (reset_memory svc coll) \<longleftrightarrow> cs \<noteq> [])"
    by (auto simp: reset_memory_cases)
  have c: "index_error svc = None \<and> coll = Some cs
       \<and> reset_db svc db coll current_user = (db', coll'', Inr ok) \<longrightarrow> coll'' = Some []"
    by (auto simp: reset_db_def reset_memory_cases split: sum.splits if_splits)
  show ?thesis using a b c by blast
qed

theorem reset_memory_clears_every_user_witness:
  "reset_memory svc_up (Some two_user_collection) = (Some [], True)
   \<and> search_pdf_sync svc_up (Some []) ''password'' ''2'' = None
   \<and> index_error svc_up = None
   \<and> fst (reset_memory svc_up (Some two_user_collection)) = Some []
   \<and> reset_db svc_up empty_db (Some two_user_collection) alice
       = (empty_db, Some [], Inr ''History and PDF Memory cleared!'')"
proof -
  have i: "index_error svc_up = None" by (simp add: svc_up_def)
  have q: "query_delete_sessions empty_db (u_id alice) = Inr empty_db"
    by (simp add: query_delete_sessions_def empty_db_def)
  have m: "reset_memory svc_up (Some two_user_collection) = (Some [], True)"
    by (simp add: reset_memory_def collection_get_def collection_delete_def svc_up_def
          two_user_collection_def)
  have r: "reset_db svc_up empty_db (Some two_user_collection) alice
       = (empty_db, Some [], Inr ''History and PDF Memory cleared!'')"
    by (simp add: m reset_db_def q)
  show ?thesis
    using reset_memory_clears_every_user
            [of svc_up "Some two_user_collection" "Some []" "''password''" "''2''"
                two_user_collection empty_db alice empty_db "Some []"
                "''History and PDF Memory cleared!''"]
          i m r
    by simp
qed

subsection \<open>Isolation of users in the document index\<close>

text \<open>\<open>str\<close> on integers is injective: two users never share the metadata string.\<close>

lemma of_char_digit_char: "d < 10 \<Longrightarrow> (of_char (digit_char d) :: nat) = 48 + d"
  by (simp add: digit_char_def)

lemma digits_value_str_nat: "digits_value (str_nat n) = n"
proof (induction n rule: str_nat.induct)
  case (1 n)
  show ?case
  proof (cases "n < 10")
    case True
    then show ?thesis
      by (simp add: str_nat.simps[of n] digits_value_def of_char_digit_char)
  next
    case False
    then have "digits_value (str_nat n) = 10 * digits_value (str_nat (n div 10)) + n mod 10"
      by (simp add: str_nat.simps[of n] digits_value_def of_char_digit_char)
    then show ?thesis using 1 False by simp
  qed
qed

lemma str_nat_inj: "str_nat m = str_nat n \<Longrightarrow> m = n"
  by (metis digits_value_str_nat)

lemma str_nat_hd: "str_nat n \<noteq> [] \<and> hd (str_nat n) \<noteq> CHR ''-''"
proof (induction n rule: str_nat.induct)
  case (1 n)
  show ?case
  proof (cases "n < 10")
    case True
    then have "(of_char (digit_char n) :: nat) \<noteq> of_char CHR ''-''"
      by (simp add: of_char_digit_char)
    then have "digit_char n \<noteq> CHR ''-''" by auto
    then show ?thesis using True by (simp add: str_nat.simps[of n])
  next
    case False
    then show ?thesis using 1 by (simp add: str_nat.simps[of n])
  qed
qed

lemma str_int_inj: "str_int i = str_int j \<Longrightarrow> i = j"
proof -
  assume e: "str_int i = str_int j"
  have neg: "str_nat m \<noteq> CHR ''-'' # s" for m s
    using str_nat_hd[of m] by (cases "str_nat m") auto
  show ?thesis
  proof (cases "i < 0"; cases "j < 0")
    assume "i < 0" "j < 0"
    then have "nat (- i) = nat (- j)" using e by (simp add: str_int_def str_nat_inj)
    then show ?thesis using \<open>i < 0\<close> \<open>j < 0\<close> by simp
  next
    assume "i < 0" "\<not> j < 0"
    then show ?thesis using e neg[of "nat j" "str_nat (nat (- i))"] by (simp add: str_int_def)
  next
    assume "\<not> i < 0" "j < 0"
    then show ?thesis using e neg[of "nat i"] by (simp add: str_int_def)
  next
    assume "\<not> i < 0" "\<not> j < 0"
    then have "nat i = nat j" using e by (simp add: str_int_def str_nat_inj)
    then show ?thesis using \<open>\<not> i < 0\<close> \<open>\<not> j < 0\<close> by simp
  qed
qed

lemma parse_chunk_sync_adds:
  "\<exists>new. fst (parse_chunk_sync svc cs fc fname b uuid4) = cs @ new
      \<and> (\<forall>c \<in> set new. metadata c = [(''user_id'', str_int b), (''filename'', fname)])"
proof (cases "pdf_reader svc fc")
  case (Inl e)
  then have "fst (parse_chunk_sync svc cs fc fname b uuid4) = cs @ []"
    by (simp add: parse_chunk_sync_def)
  then show ?thesis by (intro exI[of _ "[]"]) simp
next
  case (Inr pages)
  show ?thesis
  proof (cases "index_error svc")
    case (Some e)
    then have "fst (parse_chunk_sync svc cs fc fname b uuid4) = cs @ []"
      using Inr by (simp add: parse_chunk_sync_def collection_add_def Let_def)
    then show ?thesis by (intro exI[of _ "[]"]) simp
  next
    case None
    show ?thesis
      unfolding parse_chunk_sync_result[OF Inr None refl]
      by (auto intro!: exI[of _ "[]"])
  qed
qed

lemma ingest_pdf_unavailable: "fst (ingest_pdf svc None fc fname b uuid4) = None"
  by (simp add: ingest_pdf_def)

lemma ingest_pdf_adds:
  "\<exists>new. fst (ingest_pdf svc (Some cs) fc fname b uuid4) = Some (cs @ new)
      \<and> (\<forall>c \<in> set new. metadata c = [(''user_id'', str_int b), (''filename'', fname)])"
  using parse_chunk_sync_adds[of svc cs fc fname b uuid4]
  by (auto simp: ingest_pdf_def split: prod.splits)

lemma collection_query_other_users:
  assumes "\<forall>c \<in> set new. map_of (metadata c) ''user_id'' \<noteq> Some uid"
  shows "collection_query svc (cs @ new) q n uid = collection_query svc cs q n uid"
proof -
  have f: "filter (\<lambda>c. map_of (metadata c) ''user_id'' = Some uid) new = []"
    using assms by (simp add: filter_empty_conv)
  show ?thesis unfolding collection_query_def filter_append f append_Nil2 by (rule refl)
qed

lemma search_pdf_sync_after_ingest:
  assumes "a \<noteq> b"
  shows "search_pdf_sync svc (fst (ingest_pdf svc coll fc fname b uuid4)) q (str_int a)
       = search_pdf_sync svc coll q (str_int a)"
proof (cases coll)
  case None
  then show ?thesis by (simp add: ingest_pdf_unavailable)
next
  case (Some cs)
  obtain new where n: "fst (ingest_pdf svc (Some cs) fc fname b uuid4) = Some (cs @ new)"
      "\<forall>c \<in> set new. metadata c = [(''user_id'', str_int b), (''filename'', fname)]"
    using ingest_pdf_adds[of svc cs fc fname b uuid4] by blast
  have "str_int b \<noteq> str_int a" using assms str_int_inj by blast
  then have "\<forall>c \<in> set new. map_of (metadata c) ''user_id'' \<noteq> Some (str_int a)"
    using n(2) by simp
  then show ?thesis
    using Some n(1) by (simp add: search_pdf_sync_def collection_query_other_users)
qed

lemma ingest_pdf_available:
  "fst (ingest_pdf svc coll fc fname b uuid4) = None \<longleftrightarrow> coll = None"
proof (cases coll)
  case None
  then show ?thesis by (simp add: ingest_pdf_unavailable)
next
  case (Some cs)
  then show ?thesis using ingest_pdf_adds[of svc cs fc fname b uuid4] by auto
qed

lemma run_agent_context_after_ingest:
  assumes "a \<noteq> b"
  shows "run_agent_context svc (fst (ingest_pdf svc coll fc fname b uuid4)) q w a
      = run_agent_context svc coll q w a"
  unfolding run_agent_context_def search_pdf_sync_after_ingest[OF assms] ingest_pdf_available
  by (rule refl)

text \<open>
  C6. A query of the index on behalf of user \<open>a\<close> returns only stored chunks whose
  metadata \<open>user_id\<close> is \<open>str(a)\<close>. Every chunk an upload of user \<open>b\<close> stores carries
  \<open>str(b)\<close>, and \<open>str\<close> is injective, so for \<open>a \<noteq> b\<close> an upload of \<open>b\<close> changes neither
  the result of the document search for \<open>a\<close> nor anything \<open>run_agent\<close> returns to \<open>a\<close>:
  the chunks of \<open>b\<close> are not visible in the retrieval results of \<open>a\<close>.
\<close>

theorem search_scoped_to_user:
  "(collection_query svc cs q n (str_int a) = Inr results \<longrightarrow>
      set results \<subseteq> set cs
      \<and> (\<forall>c \<in> set results. map_of (metadata c) ''user_id'' = Some (str_int a)))
   \<and> (a \<noteq> b \<longrightarrow>
        search_pdf_sync svc (fst (ingest_pdf svc coll fc fname b uuid4)) q (str_int a)
          = search_pdf_sync svc coll q (str_int a))
   \<and> (a \<noteq> b \<longrightarrow>
        run_agent svc (fst (ingest_pdf svc coll fc fname b uuid4)) q h w a si t
          = run_agent svc coll q h w a si t)"
proof -
  have 1: "collection_query svc cs q n (str_int a) = Inr results \<longrightarrow>
      set results \<subseteq> set cs
      \<and> (\<forall>c \<in> set results. map_of (metadata c) ''user_id'' = Some (str_int a))"
    by (auto simp: collection_query_def split: option.splits dest!: in_set_takeD)
  have 2: "a \<noteq> b \<longrightarrow>
        search_pdf_sync svc (fst (ingest_pdf svc coll fc fname b uuid4)) q (str_int a)
          = search_pdf_sync svc coll q (str_int a)"
    using search_pdf_sync_after_ingest by blast
  have 3: "a \<noteq> b \<longrightarrow>
        run_agent svc (fst (ingest_pdf svc coll fc fname b uuid4)) q h w a si t
          = run_agent svc coll q h w a si t"
    by (simp add: run_agent_def run_agent_context_after_ingest)
  show ?thesis using 1 2 3 by blast
qed

theorem search_scoped_to_user_witness:
  "collection_query svc_up two_user_collection ''password'' 5 (str_int 1)
     = Inr [\<lparr>chunk_id = ''a1'', document = ''Alice: the contract ends in May.'',
             metadata = [(''user_id'', ''1''), (''filename'', ''contract.pdf'')]\<rparr>]
   \<and> (1::int) \<noteq> 2
   \<and> search_pdf_sync svc_up
        (fst (ingest_pdf svc_up (Some two_user_collection) ''Bob: the key is 1234.'' ''keys.pdf'' 2
                test_uuid4))
        ''password'' (str_int 1)
       = Some ''Alice: the contract ends in May.''"
proof -
  have s: "str_int 1 = ''1''" by code_simp
  have q: "collection_query svc_up two_user_collection ''password'' 5 ''1''
     = Inr [\<lparr>chunk_id = ''a1'', document = ''Alice: the contract ends in May.'',
             metadata = [(''user_id'', ''1''), (''filename'', ''contract.pdf'')]\<rparr>]"
    by (simp add: collection_query_def svc_up_def two_user_collection_def)
  have p: "search_pdf_sync svc_up (Some two_user_collection) ''password'' ''1''
      = Some ''Alice: the contract ends in May.''"
    by (simp add: search_pdf_sync_def q)
  show ?thesis
    using search_scoped_to_user
            [of svc_up two_user_collection "''password''" 5 1
                "[\<lparr>chunk_id = ''a1'', document = ''Alice: the contract ends in May.'',
                   metadata = [(''user_id'', ''1''), (''filename'', ''contract.pdf'')]\<rparr>]"
                2 "Some two_user_collection"
                "''Bob: the key is 1234.''" "''keys.pdf''" test_uuid4]
          q p
    by (simp add: s)
qed

subsection \<open>Retrieval policy of the agent\<close>

lemma py_join_nonempty: "\<exists>d \<in> set docs. d \<noteq> '''' \<Longrightarrow> py_join sep docs \<noteq> ''''"
  by (induction sep docs rule: py_join.induct) auto

lemma run_agent_context_greeting:
  assumes "py_strip (py_lower q) \<in> set [''hi'', ''hello'', ''hey'']"
  shows "run_agent_context svc coll q w uid
       = \<lparr>context_data = '''', source_label = ''General Knowledge'', calls = []\<rparr>"
  using assms unfolding run_agent_context_def Let_def by simp

lemma run_agent_context_calls_pdf:
  assumes "SearchPdf \<in> set (calls (run_agent_context svc coll q w uid))"
  shows "py_strip (py_lower q) \<notin> set [''hi'', ''hello'', ''hey'']
     \<and> (determine_intent svc q = ''PDF'' \<or> (determine_intent svc q = ''CHAT'' \<and> coll \<noteq> None))"
  using assms unfolding run_agent_context_def Let_def
  by (auto split: if_splits option.splits)

lemma run_agent_context_pdf_hit:
  assumes "py_strip (py_lower q) \<notin> set [''hi'', ''hello'', ''hey'']"
    and "determine_intent svc q = ''PDF'' \<or> (determine_intent svc q = ''CHAT'' \<and> coll \<noteq> None)"
    and "search_pdf_sync svc coll q (str_int uid) = Some d" and "d \<noteq> ''''"
  shows "run_agent_context svc coll q w uid
       = \<lparr>context_data = d, source_label = ''Uploaded Document'', calls = [SearchPdf]\<rparr>"
  using assms unfolding run_agent_context_def Let_def by auto

lemma run_agent_success:
  assumes "chat_complete svc ''mistral-large-latest''
      (agent_messages svc si (run_agent_context svc coll q w uid) h q) t = Inr (c # cs)"
  shows "run_agent svc coll q h w uid si t = (c, source_label (run_agent_context svc coll q w uid))"
  using assms by (simp add: run_agent_def Let_def)

text \<open>
  C2. For every query whose lower-cased, trimmed text is one of \<open>hi\<close>, \<open>hello\<close>, \<open>hey\<close> (the
  list \<open>run_agent\<close> tests), neither search helper is called, the context stays empty and
  the source label is \<open>General Knowledge\<close>; this is the label returned with the answer
  whenever the completion request succeeds. The classifier's list has two more entries,
  \<open>sup\<close> and \<open>how are you\<close>; for these the agent does search the document index when it is
  available, and a failed completion returns the label \<open>Error\<close> for any query (see the
  counterexample).
\<close>

theorem greeting_skips_retrieval:
  assumes "py_strip (py_lower q) \<in> set [''hi'', ''hello'', ''hey'']"
  shows "calls (run_agent_context svc coll q w uid) = []
     \<and> context_data (run_agent_context svc coll q w uid) = ''''
     \<and> source_label (run_agent_context svc coll q w uid) = ''General Knowledge''
     \<and> (chat_complete svc ''mistral-large-latest''
           (agent_messages svc si (run_agent_context svc coll q w uid) h q) t = Inr (c # cs)
         \<longrightarrow> run_agent svc coll q h w uid si t = (c, ''General Knowledge''))"
  using run_agent_success[of svc si coll q w uid h t c cs]
  by (auto simp: run_agent_context_greeting[OF assms])

theorem greeting_skips_retrieval_witness:
  "py_strip (py_lower '' Hello '') \<in> set [''hi'', ''hello'', ''hey'']
   \<and> calls (run_agent_context svc_up (Some two_user_collection) '' Hello '' True 1) = []
   \<and> run_agent svc_up (Some two_user_collection) '' Hello '' [] True 1 None (3 / 10)
       = (''Here is the answer.'', ''General Knowledge'')"
proof -
  have g: "py_strip (py_lower '' Hello '') \<in> set [''hi'', ''hello'', ''hey'']" by code_simp
  have c: "chat_complete svc_up ''mistral-large-latest'' msgs (3 / 10) = Inr [''Here is the answer.'']"
    for msgs by (simp add: svc_up_def)
  show ?thesis
    using greeting_skips_retrieval[OF g, of svc_up "Some two_user_collection" True 1 None "[]"
            "3 / 10" "''Here is the answer.''" "[]"] g c
    by simp
qed

theorem greeting_list_counterexample:
  "py_strip (py_lower ''sup'') \<in> set [''hi'', ''hello'', ''hey'', ''sup'', ''how are you'']
   \<and> calls (run_agent_context svc_up (Some two_user_collection) ''sup'' True 1) = [SearchPdf]
   \<and> run_agent svc_up (Some two_user_collection) ''sup'' [] True 1 None (3 / 10)
       = (''Here is the answer.'', ''Uploaded Document'')
   \<and> py_strip (py_lower ''hi'') \<in> set [''hi'', ''hello'', ''hey'', ''sup'', ''how are you'']
   \<and> snd (run_agent svc_down None ''hi'' [] True 1 None (3 / 10)) = ''Error''"
proof -
  have g: "py_strip (py_lower ''sup'') = ''sup''" "py_strip (py_lower ''hi'') = ''hi''"
    by code_simp+
  have s: "str_int 1 = ''1''" by code_simp
  have i: "determine_intent svc_up ''sup'' = ''CHAT''" by (simp add: determine_intent_def g)
  have p: "search_pdf_sync svc_up (Some two_user_collection) ''sup'' ''1''
      = Some ''Alice: the contract ends in May.''"
    by (simp add: search_pdf_sync_def collection_query_def svc_up_def two_user_collection_def)
  have r: "run_agent_context svc_up (Some two_user_collection) ''sup'' True 1
      = \<lparr>context_data = ''Alice: the contract ends in May.'',
         source_label = ''Uploaded Document'', calls = [SearchPdf]\<rparr>"
    by (rule run_agent_context_pdf_hit) (simp_all add: g i s p)
  have c: "chat_complete svc_up ''mistral-large-latest'' msgs (3 / 10) = Inr [''Here is the answer.'']"
    for msgs by (simp add: svc_up_def)
  have a: "run_agent svc_up (Some two_user_collection) ''sup'' [] True 1 None (3 / 10)
       = (''Here is the answer.'', ''Uploaded Document'')"
    by (simp add: run_agent_def r c)
  have e: "snd (run_agent svc_down None ''hi'' [] True 1 None (3 / 10)) = ''Error''"
    by (simp add: run_agent_def svc_down_def Let_def)
  show ?thesis using g r a e by simp
qed

text \<open>
  C5. If the agent searches the document index for a query and the index returns at least
  one non-empty document text, then the web search helper is not called for that query
  (so the provider is not reached), the documents joined by line breaks are the context,
  and the source label is \<open>Uploaded Document\<close>, which a successful completion returns.
\<close>

theorem document_hit_skips_web:
  assumes "SearchPdf \<in> set (calls (run_agent_context svc coll q w uid))"
    and "coll = Some chunks"
    and "collection_query svc chunks q 5 (str_int uid) = Inr results"
    and "\<exists>x \<in> set results. document x \<noteq> ''''"
  shows "SearchWeb \<notin> set (calls (run_agent_context svc coll q w uid))
     \<and> source_label (run_agent_context svc coll q w uid) = ''Uploaded Document''
     \<and> context_data (run_agent_context svc coll q w uid) = py_join NL (map document results)
     \<and> (chat_complete svc ''mistral-large-latest''
           (agent_messages svc si (run_agent_context svc coll q w uid) h q) t = Inr (c # cs)
         \<longrightarrow> run_agent svc coll q h w uid si t = (c, ''Uploaded Document''))"
proof -
  have ne: "results \<noteq> []" using assms(4) by auto
  have j: "py_join NL (map document results) \<noteq> ''''"
    using assms(4) by (intro py_join_nonempty) auto
  have s: "search_pdf_sync svc coll q (str_int uid) = Some (py_join NL (map document results))"
    using assms(2,3) ne by (simp add: search_pdf_sync_def)
  note g = run_agent_context_calls_pdf[OF assms(1)]
  have r: "run_agent_context svc coll q w uid
       = \<lparr>context_data = py_join NL (map document results),
          source_label = ''Uploaded Document'', calls = [SearchPdf]\<rparr>"
    using g s j by (intro run_agent_context_pdf_hit) auto
  show ?thesis
    using run_agent_success[of svc si coll q w uid h t c cs] by (auto simp: r)
qed

theorem document_hit_skips_web_witness:
  "calls (run_agent_context svc_up (Some two_user_collection) ''When does it end?'' True 1)
     = [SearchPdf]
   \<and> collection_query svc_up two_user_collection ''When does it end?'' 5 (str_int 1)
     = Inr [\<lparr>chunk_id = ''a1'', document = ''Alice: the contract ends in May.'',
             metadata = [(''user_id'', ''1''), (''filename'', ''contract.pdf'')]\<rparr>]
   \<and> run_agent svc_up (Some two_user_collection) ''When does it end?'' [] True 1 None (3 / 10)
     = (''Here is the answer.'', ''Uploaded Document'')"
proof -
  have s: "str_int 1 = ''1''" by code_simp
  have g: "py_strip (py_lower ''When does it end?'') = ''when does it end?''" by code_simp
  have u: "py_upper (py_strip '' pdf '') = ''PDF''" by code_simp
  have i: "determine_intent svc_up ''When does it end?'' = ''PDF''"
    by (simp add: determine_intent_def g svc_up_def u)
  have q: "collection_query svc_up two_user_collection ''When does it end?'' 5 (str_int 1)
     = Inr [\<lparr>chunk_id = ''a1'', document = ''Alice: the contract ends in May.'',
             metadata = [(''user_id'', ''1''), (''filename'', ''contract.pdf'')]\<rparr>]"
    by (simp add: s collection_query_def svc_up_def two_user_collection_def)
  have p: "search_pdf_sync svc_up (Some two_user_collection) ''When does it end?'' (str_int 1)
      = Some ''Alice: the contract ends in May.''"
    by (simp add: search_pdf_sync_def q)
  have r: "run_agent_context svc_up (Some two_user_collection) ''When does it end?'' True 1
      = \<lparr>context_data = ''Alice: the contract ends in May.'',
         source_label = ''Uploaded Document'', calls = [SearchPdf]\<rparr>"
    by (rule run_agent_context_pdf_hit) (simp_all add: g i p)
  have k: "SearchPdf \<in> set (calls (run_agent_context svc_up (Some two_user_collection)
             ''When does it end?'' True 1))"
    by (simp add: r)
  have c: "chat_complete svc_up ''mistral-large-latest'' msgs (3 / 10) = Inr [''Here is the answer.'']"
    for msgs by (simp add: svc_up_def)
  show ?thesis
    using document_hit_skips_web[OF k refl q, of None "[]" "3 / 10" "''Here is the answer.''" "[]"]
          c q
    by (simp add: r)
qed

subsection \<open>The chat endpoint\<close>

lemma session_step_ok:
  assumes "(case find (\<lambda>s. cs_id s = sid \<and> cs_user_id s = uid) (sessions db) of
              Some s \<Rightarrow> Inr db
            | None \<Rightarrow> insert_session db \<lparr>cs_id = sid, cs_user_id = uid, cs_title = ttl\<rparr>) = Inr db1"
  shows "messages db1 = messages db \<and> foreign_keys db1 = foreign_keys db
       \<and> sid \<in> set (map cs_id (sessions db1))"
proof (cases "find (\<lambda>s. cs_id s = sid \<and> cs_user_id s = uid) (sessions db)")
  case None
  then show ?thesis using assms by (auto simp: insert_session_def split: if_splits)
next
  case (Some s)
  then have "s \<in> set (sessions db) \<and> cs_id s = sid"
    by (auto simp: find_Some_iff)
  then show ?thesis using assms Some by auto
qed

lemma insert_message_ok:
  assumes "sid \<in> set (map cs_id (sessions db))"
  shows "insert_message db sid r c
      = Inr (db\<lparr>messages := messages db
               @ [\<lparr>cm_id = next_message_id db, cm_session_id = sid, cm_role = r, cm_content = c\<rparr>]\<rparr>)"
  using assms by (simp add: insert_message_def)

lemma chat_endpoint_with_result:
  assumes "chat_endpoint_with outcome db req u = Inr (db', resp)"
  shows "messages db' = messages db
           @ [\<lparr>cm_id = next_message_id db, cm_session_id = req_session_id req,
               cm_role = ''user'', cm_content = req_query req\<rparr>,
              \<lparr>cm_id = next_message_id db + 1, cm_session_id = req_session_id req,
               cm_role = ''model'', cm_content = response resp\<rparr>]
       \<and> (response resp, source resp)
           = (case outcome of
                Inr p \<Rightarrow> p
              | Inl e \<Rightarrow> (''I'm having trouble thinking right now. Error: '' @ str_exn e, ''Error''))
       \<and> resp_session_id resp = req_session_id req"
proof -
  define sid where "sid = req_session_id req"
  define step where "step = (case find (\<lambda>s. cs_id s = sid \<and> cs_user_id s = u_id u) (sessions db) of
              Some s \<Rightarrow> Inr db
            | None \<Rightarrow> insert_session db \<lparr>cs_id = sid, cs_user_id = u_id u,
                   cs_title = py_slice (req_query req) 0 30 @ ''...''\<rparr>)"
  obtain db1 where s1: "step = Inr db1"
    using assms unfolding chat_endpoint_with_def sid_def[symmetric] step_def[symmetric]
    by (cases step) auto
  note k = session_step_ok[OF s1[unfolded step_def]]
  define m1 where "m1 = \<lparr>cm_id = next_message_id db, cm_session_id = sid,
               cm_role = ''user'', cm_content = req_query req\<rparr>"
  define db2 where "db2 = db1\<lparr>messages := messages db @ [m1]\<rparr>"
  have n1: "next_message_id db1 = next_message_id db" using k by (simp add: next_message_id_def)
  have i1: "insert_message db1 sid ''user'' (req_query req) = Inr db2"
    using k by (simp add: insert_message_ok n1 db2_def m1_def)
  have n2: "next_message_id db2 = next_message_id db + 1"
    by (simp add: next_message_id_def db2_def m1_def)
  have i2: "insert_message db2 sid ''model'' c
      = Inr (db2\<lparr>messages := messages db @ [m1,
               \<lparr>cm_id = next_message_id db + 1, cm_session_id = sid, cm_role = ''model'', cm_content = c\<rparr>]\<rparr>)"
    for c
    using k by (simp add: insert_message_def n2) (simp add: db2_def)
  show ?thesis
    using assms unfolding chat_endpoint_with_def sid_def[symmetric] step_def[symmetric] s1
    by (auto simp: i1 i2 m1_def split: prod.splits sum.splits)
qed

lemma find_Some_set: "find P xs = Some x \<Longrightarrow> x \<in> set xs \<and> P x"
  by (induction xs) (auto split: if_splits)

lemma chat_endpoint_with_fails_iff:
  "(\<exists>e. chat_endpoint_with outcome db req u = Inl e) \<longleftrightarrow>
     find (\<lambda>s. cs_id s = req_session_id req \<and> cs_user_id s = u_id u) (sessions db) = None
     \<and> req_session_id req \<in> set (map cs_id (sessions db))"
proof (cases "find (\<lambda>s. cs_id s = req_session_id req \<and> cs_user_id s = u_id u) (sessions db)")
  case None
  show ?thesis
  proof (cases "req_session_id req \<in> set (map cs_id (sessions db))")
    case True
    then show ?thesis using None by (simp add: chat_endpoint_with_def insert_session_def)
  next
    case False
    then show ?thesis using None
      by (simp add: chat_endpoint_with_def insert_session_def insert_message_def
               split: prod.splits sum.splits)
  qed
next
  case (Some s)
  then have "req_session_id req \<in> set (map cs_id (sessions db))"
    using find_Some_set[OF Some] by (metis (mono_tags, lifting) image_eqI set_map)
  then show ?thesis using Some
    by (simp add: chat_endpoint_with_def insert_message_def split: prod.splits sum.splits)
qed

text \<open>
  C10. Every chat request that is answered appends exactly two messages to the message
  table, both in the session of the request and in this order: one with role \<open>user\<close> and
  the submitted query as content, then one with role \<open>model\<close> whose content is the text
  of the response. This holds whatever the call of the agent does: if it raises \<open>e\<close>, the
  model message is the handler's error text with the message of \<open>e\<close> and the source is
  \<open>Error\<close>; if the completion request inside the agent raises, the model message is the
  agent's error text and the source is \<open>Error\<close> as well.
\<close>

theorem chat_appends_user_then_model:
  assumes "chat_endpoint_with outcome db req u = Inr (db', resp)"
  shows "messages db' = messages db
           @ [\<lparr>cm_id = next_message_id db, cm_session_id = req_session_id req,
               cm_role = ''user'', cm_content = req_query req\<rparr>,
              \<lparr>cm_id = next_message_id db + 1, cm_session_id = req_session_id req,
               cm_role = ''model'', cm_content = response resp\<rparr>]
     \<and> filter (\<lambda>m. cm_session_id m = req_session_id req) (messages db')
         = filter (\<lambda>m. cm_session_id m = req_session_id req) (messages db)
           @ [\<lparr>cm_id = next_message_id db, cm_session_id = req_session_id req,
               cm_role = ''user'', cm_content = req_query req\<rparr>,
              \<lparr>cm_id = next_message_id db + 1, cm_session_id = req_session_id req,
               cm_role = ''model'', cm_content = response resp\<rparr>]
     \<and> (outcome = Inl e \<longrightarrow>
           response resp = ''I'm having trouble thinking right now. Error: '' @ str_exn e
           \<and> source resp = ''Error'')
     \<and> (outcome = Inr (txt, lbl) \<longrightarrow> response resp = txt \<and> source resp = lbl)
     \<and> (outcome = Inr (run_agent svc coll (req_query req) (history_fmt req) (req_use_web req)
                         (u_id u) (req_system_instruction req) (req_temperature req))
          \<and> chat_complete svc ''mistral-large-latest''
               (agent_messages svc (req_system_instruction req)
                  (run_agent_context svc coll (req_query req) (req_use_web req) (u_id u))
                  (history_fmt req) (req_query req))
               (req_temperature req) = Inl e
          \<longrightarrow> response resp = ''I encountered an error: '' @ str_exn e \<and> source resp = ''Error'')"
proof -
  note r = chat_endpoint_with_result[OF assms]
  have a: "outcome = Inl e \<longrightarrow>
           response resp = ''I'm having trouble thinking right now. Error: '' @ str_exn e
           \<and> source resp = ''Error''"
    using r by auto
  have b: "outcome = Inr (txt, lbl) \<longrightarrow> response resp = txt \<and> source resp = lbl"
    using r by auto
  have c: "outcome = Inr (run_agent svc coll (req_query req) (history_fmt req) (req_use_web req)
                         (u_id u) (req_system_instruction req) (req_temperature req))
          \<and> chat_complete svc ''mistral-large-latest''
               (agent_messages svc (req_system_instruction req)
                  (run_agent_context svc coll (req_query req) (req_use_web req) (u_id u))
                  (history_fmt req) (req_query req))
               (req_temperature req) = Inl e
          \<longrightarrow> response resp = ''I encountered an error: '' @ str_exn e \<and> source resp = ''Error''"
    using r by (auto simp: run_agent_def Let_def)
  show ?thesis using r a b c by simp
qed

theorem chat_appends_user_then_model_witness:
  "chat_endpoint_with (Inl (Exception ''boom'')) empty_db hello_request alice
     = Inr (empty_db
              \<lparr>sessions := [\<lparr>cs_id = ''s1'', cs_user_id = 1, cs_title = ''What is 2+2?...''\<rparr>],
               messages :=
                 [\<lparr>cm_id = 1, cm_session_id = ''s1'', cm_role = ''user'',
                   cm_content = ''What is 2+2?''\<rparr>,
                  \<lparr>cm_id = 2, cm_session_id = ''s1'', cm_role = ''model'',
                   cm_content = ''I'm having trouble thinking right now. Error: boom''\<rparr>]\<rparr>,
            \<lparr>response = ''I'm having trouble thinking right now. Error: boom'',
             source = ''Error'', resp_session_id = ''s1''\<rparr>)
   \<and> chat_endpoint svc_down None empty_db hello_request alice
     = Inr (empty_db
              \<lparr>sessions := [\<lparr>cs_id = ''s1'', cs_user_id = 1, cs_title = ''What is 2+2?...''\<rparr>],
               messages :=
                 [\<lparr>cm_id = 1, cm_session_id = ''s1'', cm_role = ''user'',
                   cm_content = ''What is 2+2?''\<rparr>,
                  \<lparr>cm_id = 2, cm_session_id = ''s1'', cm_role = ''model'',
                   cm_content = ''I encountered an error: timeout''\<rparr>]\<rparr>,
            \<lparr>response = ''I encountered an error: timeout'',
             source = ''Error'', resp_session_id = ''s1''\<rparr>)"
proof -
  define D where "D c = empty_db
              \<lparr>sessions := [\<lparr>cs_id = ''s1'', cs_user_id = 1, cs_title = ''What is 2+2?...''\<rparr>],
               messages :=
                 [\<lparr>cm_id = 1, cm_session_id = ''s1'', cm_role = ''user'',
                   cm_content = ''What is 2+2?''\<rparr>,
                  \<lparr>cm_id = 2, cm_session_id = ''s1'', cm_role = ''model'',
                   cm_content = c\<rparr>]\<rparr>" for c
  define R where "R c = \<lparr>response = c, source = ''Error'', resp_session_id = ''s1''\<rparr>" for c
  have e1: "chat_endpoint_with (Inl (Exception ''boom'')) empty_db hello_request alice
      = Inr (D ''I'm having trouble thinking right now. Error: boom'',
             R ''I'm having trouble thinking right now. Error: boom'')"
    by (simp add: chat_endpoint_with_def empty_db_def hello_request_def alice_def
          insert_session_def insert_message_def py_slice_def next_message_id_def D_def R_def)
  have c: "chat_complete svc_down ''mistral-large-latest'' msgs t = Inl (Exception ''timeout'')"
    for msgs t by (simp add: svc_down_def)
  have ra: "run_agent svc_down None q h w uid si t = (''I encountered an error: timeout'', ''Error'')"
    for q h w uid si t by (simp add: run_agent_def Let_def c)
  have e2: "chat_endpoint_with
      (Inr (run_agent svc_down None (req_query hello_request) (history_fmt hello_request)
              (req_use_web hello_request) (u_id alice) (req_system_instruction hello_request)
              (req_temperature hello_request)))
      empty_db hello_request alice
      = Inr (D ''I encountered an error: timeout'', R ''I encountered an error: timeout'')"
    unfolding ra
    by (simp add: chat_endpoint_with_def empty_db_def hello_request_def alice_def
          insert_session_def insert_message_def py_slice_def next_message_id_def D_def R_def)
  have "source (R ''I'm having trouble thinking right now. Error: boom'') = ''Error''
      \<and> response (R ''I encountered an error: timeout'') = ''I encountered an error: timeout''"
    using chat_appends_user_then_model[OF e1, of "Exception ''boom''"]
          chat_appends_user_then_model[OF e2, of "Exception ''timeout''"
            "''I encountered an error: timeout''" "''Error''" svc_down None]
          c ra
    by simp
  then show ?thesis
    using e1 e2 by (simp add: chat_endpoint_def D_def R_def)
qed

subsection \<open>Deleting sessions\<close>

lemma orm_delete_session_cascades:
  "\<forall>m \<in> set (messages (orm_delete_session db s)). cm_session_id m \<noteq> cs_id s"
  by (simp add: orm_delete_session_def)

lemma query_delete_sessions_keeps_messages:
  "query_delete_sessions db uid = Inr db' \<Longrightarrow> messages db' = messages db"
  by (auto simp: query_delete_sessions_def Let_def split: if_splits)

lemma db_with_chat_reachable:
  "chat_endpoint_with (Inr (''4'', ''General Knowledge'')) (empty_db\<lparr>users := [alice]\<rparr>)
     hello_request alice
   = Inr (db_with_chat,
          \<lparr>response = ''4'', source = ''General Knowledge'', resp_session_id = ''s1''\<rparr>)"
  by (simp add: chat_endpoint_with_def empty_db_def hello_request_def alice_def db_with_chat_def
        insert_session_def insert_message_def py_slice_def next_message_id_def)

text \<open>
  C3. A memory reset should delete the sessions of the calling user together with their
  messages. On the database \<open>db_with_chat\<close> (one session of user 1 with two messages,
  the state one chat request leaves) \<open>reset_db\<close> answers with success and removes the
  session row, and both messages of the deleted session are still in the message table;
  on a backend that enforces the foreign key the same request is rejected with status
  500 and deletes nothing. \<open>delete_session\<close>, which deletes through the ORM session,
  removes the messages with the session.
\<close>

theorem reset_db_leaves_messages:
  "reset_db svc_up db_with_chat (Some []) alice
     = (db_with_chat\<lparr>sessions := []\<rparr>, Some [], Inr ''History and PDF Memory cleared!'')
   \<and> messages (fst (reset_db svc_up db_with_chat (Some []) alice))
     = [\<lparr>cm_id = 1, cm_session_id = ''s1'', cm_role = ''user'', cm_content = ''What is 2+2?''\<rparr>,
        \<lparr>cm_id = 2, cm_session_id = ''s1'', cm_role = ''model'', cm_content = ''4''\<rparr>]
   \<and> reset_db svc_up (db_with_chat\<lparr>foreign_keys := True\<rparr>) (Some []) alice
     = (db_with_chat\<lparr>foreign_keys := True\<rparr>, Some [],
        Inl (HTTPException 500 ''FOREIGN KEY constraint failed''))
   \<and> delete_session db_with_chat ''s1'' alice
     = Inr (db_with_chat\<lparr>sessions := [], messages := []\<rparr>, ''Chat deleted'')"
proof -
  have q0: "query_delete_sessions db_with_chat (u_id alice) = Inr (db_with_chat\<lparr>sessions := []\<rparr>)"
    by (simp add: query_delete_sessions_def db_with_chat_def alice_def)
  have q1: "query_delete_sessions (db_with_chat\<lparr>foreign_keys := True\<rparr>) (u_id alice)
      = Inl (IntegrityError ''FOREIGN KEY constraint failed'')"
    by (simp add: query_delete_sessions_def db_with_chat_def alice_def)
  have m: "reset_memory svc_up (Some []) = (Some [], False)"
    by (simp add: reset_memory_def collection_get_def svc_up_def)
  have r0: "reset_db svc_up db_with_chat (Some []) alice
     = (db_with_chat\<lparr>sessions := []\<rparr>, Some [], Inr ''History and PDF Memory cleared!'')"
    by (simp add: reset_db_def q0 m)
  have r1: "reset_db svc_up (db_with_chat\<lparr>foreign_keys := True\<rparr>) (Some []) alice
     = (db_with_chat\<lparr>foreign_keys := True\<rparr>, Some [],
        Inl (HTTPException 500 ''FOREIGN KEY constraint failed''))"
    by (simp add: reset_db_def q1)
  have d: "delete_session db_with_chat ''s1'' alice
     = Inr (db_with_chat\<lparr>sessions := [], messages := []\<rparr>, ''Chat deleted'')"
    by (simp add: delete_session_def orm_delete_session_def db_with_chat_def alice_def)
  show ?thesis unfolding r0 r1 d by (simp add: db_with_chat_def)
qed

end
